theory Spec2Isabelle
  imports Complex_Main "HOL-Library.AList"
begin

section \<open>Credit score predictor: data model\<close>

text \<open>
  The development embeds \<^verbatim>\<open>api/predictor.py\<close> (class \<^verbatim>\<open>CreditScorePredictor\<close> and
  the module-level accessor \<^verbatim>\<open>get_predictor\<close>), the constant \<^verbatim>\<open>DEFAULT_THRESHOLD\<close> of
  \<^verbatim>\<open>api/config.py\<close> and the start-up hook of \<^verbatim>\<open>api/main.py\<close>.
\<close>

subsection \<open>Python values\<close>

text \<open>
  A Python exception is identified by the name of its class. The code defines no exception
  class of its own: every exception comes from the interpreter, from numpy, from pickle or
  json, or from the loaded model and explainer objects.
\<close>

datatype exception = Raise string

text \<open>
  A Python \<^verbatim>\<open>float\<close> (IEEE double): a finite number, an infinity, or not-a-number.
  Comparing finite doubles is comparing the reals they denote. Adding doubles rounds; the
  addition is not defined here but taken as a parameter where the code adds.
\<close>

datatype float64 = Finite real | PosInf | NegInf | NaN

text \<open>The operator \<^verbatim>\<open>a > b\<close> on floats: false whenever an operand is NaN.\<close>

fun float_gt :: "float64 \<Rightarrow> float64 \<Rightarrow> bool" where
  "float_gt NaN b = False"
| "float_gt a NaN = False"
| "float_gt (Finite a) (Finite b) = (a > b)"
| "float_gt (Finite a) PosInf = False"
| "float_gt (Finite a) NegInf = True"
| "float_gt PosInf PosInf = False"
| "float_gt PosInf b = True"
| "float_gt NegInf b = False"

text \<open>
  The operators \<^verbatim>\<open>a < b\<close>, \<^verbatim>\<open>a >= b\<close> and \<^verbatim>\<open>a == b\<close> on floats, all false when an
  operand is NaN, and \<^verbatim>\<open>abs\<close>, which is exact.
\<close>

definition float_lt :: "float64 \<Rightarrow> float64 \<Rightarrow> bool" where
  "float_lt a b = float_gt b a"

definition float_ge :: "float64 \<Rightarrow> float64 \<Rightarrow> bool" where
  "float_ge a b = (a \<noteq> NaN \<and> b \<noteq> NaN \<and> \<not> float_gt b a)"

definition float_eq :: "float64 \<Rightarrow> float64 \<Rightarrow> bool" where
  "float_eq a b = (a \<noteq> NaN \<and> b \<noteq> NaN \<and> a = b)"

fun float_abs :: "float64 \<Rightarrow> float64" where
  "float_abs (Finite a) = Finite \<bar>a\<bar>"
| "float_abs PosInf = PosInf"
| "float_abs NegInf = PosInf"
| "float_abs NaN = NaN"

text \<open>What \<^verbatim>\<open>json.load\<close> returns; a JSON number (integer or not) is the number it denotes.\<close>

datatype json =
    JNull
  | JBool bool
  | JNum float64
  | JString string
  | JArray "json list"
  | JObject "(string \<times> json) list"

text \<open>
  A row vector and a matrix of doubles (numpy arrays of one and two dimensions), as lists.
  Subscripting \<^verbatim>\<open>xs[i]\<close> with a non-negative constant raises IndexError out of range.
\<close>

type_synonym vector = "float64 list"
type_synonym matrix = "float64 list list"

definition getitem :: "'a list \<Rightarrow> nat \<Rightarrow> exception + 'a" where
  "getitem xs i = (if i < length xs then Inr (xs ! i) else Inl (Raise ''IndexError''))"

definition setitem :: "'a list \<Rightarrow> nat \<Rightarrow> 'a \<Rightarrow> exception + 'a list" where
  "setitem xs i v = (if i < length xs then Inr (xs[i := v]) else Inl (Raise ''IndexError''))"

text \<open>
  A Python \<^verbatim>\<open>dict\<close> keeps its keys in insertion order: it is an association list with
  distinct keys. \<^verbatim>\<open>k in d\<close> and \<^verbatim>\<open>d[k]\<close> are \<^term>\<open>map_of d k\<close>; storing under a
  key that exists replaces the value in place, storing under a new key appends
  (\<^const>\<open>AList.update\<close>).
\<close>

type_synonym ('k, 'v) dict = "('k \<times> 'v) list"

subsection \<open>The artifacts and the predictor object\<close>

text \<open>
  The unpickled model is an opaque object used only through \<^verbatim>\<open>predict_proba(X)\<close>; the
  unpickled explainer is an opaque callable whose result carries \<^verbatim>\<open>values\<close> and
  \<^verbatim>\<open>base_values\<close> (the fields \<open>exp_values\<close> and \<open>exp_base_values\<close>). Both are
  immutable artifacts: each is the function it computes, which may raise. Attribution
  values and base values are doubles, NaN and the infinities included.
\<close>

type_synonym model = "matrix \<Rightarrow> exception + matrix"

record explanation =
  exp_values :: "float64 list list"
  exp_base_values :: "float64 list"

type_synonym explainer = "matrix \<Rightarrow> exception + explanation"

text \<open>The attributes of a \<^verbatim>\<open>CreditScorePredictor\<close>; \<^verbatim>\<open>None\<close> until loaded.\<close>

record predictor =
  model :: "model option"
  explainer :: "explainer option"
  feature_names :: "string list option"
  threshold :: json

section \<open>Feature vectorizer\<close>

text \<open>
  \<^verbatim>\<open>_prepare_features\<close>. The loop over \<^verbatim>\<open>enumerate(self.feature_names)\<close> writes one
  cell of \<^verbatim>\<open>features_array\<close> per step. The assignment \<^verbatim>\<open>features_array[i] = v\<close>
  converts \<^verbatim>\<open>v\<close> to a double inside numpy; that conversion is the parameter \<open>conv\<close>
  (it raises on an object that is not numeric). For a feature map whose values are floats
  already, as the annotation \<^verbatim>\<open>Dict[str, float]\<close> says, \<open>conv\<close> is \<^const>\<open>Inr\<close>.
\<close>

fun prepare_loop ::
  "('v \<Rightarrow> exception + float64) \<Rightarrow> (string, 'v) dict \<Rightarrow> (nat \<times> string) list \<Rightarrow> vector
     \<Rightarrow> exception + vector" where
  "prepare_loop conv features_dict [] features_array = Inr features_array"
| "prepare_loop conv features_dict ((i, feature_name) # rest) features_array =
     (case map_of features_dict feature_name of
        Some v \<Rightarrow>
          (case conv v of
             Inl e \<Rightarrow> Inl e
           | Inr x \<Rightarrow>
               (case setitem features_array i x of
                  Inl e \<Rightarrow> Inl e
                | Inr arr \<Rightarrow> prepare_loop conv features_dict rest arr))
      | None \<Rightarrow>
          (case setitem features_array i NaN of
             Inl e \<Rightarrow> Inl e
           | Inr arr \<Rightarrow> prepare_loop conv features_dict rest arr))"

definition prepare_features ::
  "('v \<Rightarrow> exception + float64) \<Rightarrow> predictor \<Rightarrow> (string, 'v) dict \<Rightarrow> exception + matrix" where
  "prepare_features conv self features_dict =
     (case feature_names self of
        None \<Rightarrow> Inl (Raise ''TypeError'')
      | Some names \<Rightarrow>
          (case prepare_loop conv features_dict (enumerate 0 names)
                  (replicate (length names) (Finite 0)) of
             Inl e \<Rightarrow> Inl e
           | Inr features_array \<Rightarrow> Inr [features_array]))"

section \<open>Scorer and decision engine\<close>

text \<open>
  \<^verbatim>\<open>predict_proba\<close>. Calling a method of \<^verbatim>\<open>None\<close> raises AttributeError. The handler
  \<^verbatim>\<open>except Exception as e: logger.error(...); raise\<close> raises the exception it caught,
  so each failing branch returns the error it received.
\<close>

definition predict_proba ::
  "('v \<Rightarrow> exception + float64) \<Rightarrow> predictor \<Rightarrow> (string, 'v) dict
     \<Rightarrow> exception + (float64 \<times> float64)" where
  "predict_proba conv self features =
     (case prepare_features conv self features of
        Inl e \<Rightarrow> Inl e
      | Inr X \<Rightarrow>
          (case model self of
             None \<Rightarrow> Inl (Raise ''AttributeError'')
           | Some m \<Rightarrow>
               (case m X of
                  Inl e \<Rightarrow> Inl e
                | Inr out \<Rightarrow>
                    (case getitem out 0 of
                       Inl e \<Rightarrow> Inl e
                     | Inr probas \<Rightarrow>
                         (case getitem probas 0 of
                            Inl e \<Rightarrow> Inl e
                          | Inr p0 \<Rightarrow>
                              (case getitem probas 1 of
                                 Inl e \<Rightarrow> Inl e
                               | Inr p1 \<Rightarrow> Inr (p0, p1)))))))"

text \<open>
  \<^verbatim>\<open>proba_default > thresh\<close>, where \<^verbatim>\<open>thresh\<close> may be any value the threshold file
  held: a number compares as a number, a boolean as 0 or 1, anything else raises TypeError.
\<close>

definition gt_threshold :: "float64 \<Rightarrow> json \<Rightarrow> exception + bool" where
  "gt_threshold proba_default thresh =
     (case thresh of
        JNum t \<Rightarrow> Inr (float_gt proba_default t)
      | JBool b \<Rightarrow> Inr (float_gt proba_default (Finite (if b then 1 else 0)))
      | _ \<Rightarrow> Inl (Raise ''TypeError''))"

text \<open>\<^verbatim>\<open>predict\<close>; the caller's threshold is an \<^verbatim>\<open>Optional[float]\<close>.\<close>

definition predict ::
  "('v \<Rightarrow> exception + float64) \<Rightarrow> predictor \<Rightarrow> (string, 'v) dict \<Rightarrow> float64 option
     \<Rightarrow> exception + (int \<times> string)" where
  "predict conv self features threshold_arg =
     (case predict_proba conv self features of
        Inl e \<Rightarrow> Inl e
      | Inr (_, proba_default) \<Rightarrow>
          (let thresh = (case threshold_arg of Some t \<Rightarrow> JNum t | None \<Rightarrow> threshold self)
           in case gt_threshold proba_default thresh of
                Inl e \<Rightarrow> Inl e
              | Inr exceeds \<Rightarrow>
                  (let prediction = (if exceeds then 1 else 0 :: int);
                       decision = (if prediction = 1 then ''REJECTED'' else ''APPROVED'')
                   in Inr (prediction, decision))))"

section \<open>Attribution engine\<close>

text \<open>
  A dict comprehension stores its pairs one after the other. A slice \<^verbatim>\<open>xs[:n]\<close> with
  negative \<^verbatim>\<open>n\<close> stops \<^verbatim>\<open>-n\<close> items before the end. \<^verbatim>\<open>sum\<close> adds from the left,
  starting at 0, with the addition of doubles \<open>add\<close>.
\<close>

definition dict_of_pairs :: "('k \<times> 'v) list \<Rightarrow> ('k, 'v) dict" where
  "dict_of_pairs ps = foldl (\<lambda>d (k, v). AList.update k v d) [] ps"

definition slice_to :: "'a list \<Rightarrow> int \<Rightarrow> 'a list" where
  "slice_to xs n =
     (if 0 \<le> n then take (nat n) xs else take (nat (int (length xs) + n)) xs)"

definition py_sum :: "(float64 \<Rightarrow> float64 \<Rightarrow> float64) \<Rightarrow> float64 list \<Rightarrow> float64" where
  "py_sum add xs = foldl add (Finite 0) xs"

text \<open>
  The dictionary \<^verbatim>\<open>get_feature_importance\<close> returns; an entry
  \<^verbatim>\<open>{"feature": f, "value": v}\<close> of a ranked list is the pair \<open>(f, v)\<close>.
\<close>

record importance =
  shap_values :: "(string, float64) dict"
  top_positive_features :: "(string \<times> float64) list"
  top_negative_features :: "(string \<times> float64) list"
  base_value :: float64
  prediction_value :: float64

text \<open>
  \<^verbatim>\<open>get_feature_importance\<close>. Two operations of the interpreter are parameters, as the
  numeric conversion is: \<open>add\<close> is the addition of two doubles, and \<open>py_sorted key
  reverse xs\<close> is the builtin \<^verbatim>\<open>sorted(xs, key=key, reverse=reverse)\<close>. The builtin
  compares keys with \<^verbatim>\<open><\<close> only; on keys that include NaN the order it returns depends
  on the sorting algorithm of the interpreter at hand, so nothing is fixed about it here.
\<close>

type_synonym py_sorted =
  "((string \<times> float64) \<Rightarrow> float64) \<Rightarrow> bool \<Rightarrow> (string \<times> float64) list
     \<Rightarrow> (string \<times> float64) list"

definition get_feature_importance ::
  "('v \<Rightarrow> exception + float64) \<Rightarrow> (float64 \<Rightarrow> float64 \<Rightarrow> float64) \<Rightarrow> py_sorted
     \<Rightarrow> predictor \<Rightarrow> (string, 'v) dict \<Rightarrow> int \<Rightarrow> exception + importance" where
  "get_feature_importance conv add py_sorted self features top_n =
     (case prepare_features conv self features of
        Inl e \<Rightarrow> Inl e
      | Inr X \<Rightarrow>
          (case explainer self of
             None \<Rightarrow> Inl (Raise ''TypeError'')
           | Some explain \<Rightarrow>
               (case explain X of
                  Inl e \<Rightarrow> Inl e
                | Inr shap \<Rightarrow>
                    (case getitem (exp_values shap) 0 of
                       Inl e \<Rightarrow> Inl e
                     | Inr shap_vals \<Rightarrow>
                         (case getitem (exp_base_values shap) 0 of
                            Inl e \<Rightarrow> Inl e
                          | Inr base \<Rightarrow>
                              (case feature_names self of
                                 None \<Rightarrow> Inl (Raise ''TypeError'')
                               | Some names \<Rightarrow>
                                   (let shap_dict = dict_of_pairs (zip names shap_vals);
                                        sorted_features =
                                          py_sorted (\<lambda>x. float_abs (snd x)) True shap_dict;
                                        positive_features =
                                          slice_to
                                            (filter (\<lambda>(f, v). float_gt v (Finite 0))
                                               sorted_features) top_n;
                                        negative_features =
                                          slice_to
                                            (filter (\<lambda>(f, v). float_lt v (Finite 0))
                                               sorted_features) top_n;
                                        prediction = add base (py_sum add shap_vals)
                                    in Inr \<lparr>shap_values = shap_dict,
                                            top_positive_features = positive_features,
                                            top_negative_features = negative_features,
                                            base_value = base,
                                            prediction_value = prediction\<rparr>)))))))"

definition is_loaded :: "predictor \<Rightarrow> bool" where
  "is_loaded self = (model self \<noteq> None)"

definition get_threshold :: "predictor \<Rightarrow> json" where
  "get_threshold self = threshold self"

section \<open>Artifact store\<close>

text \<open>
  What the configured paths hold when \<^verbatim>\<open>_load_artifacts\<close> runs. For the three pickled
  artifacts: the object \<^verbatim>\<open>pickle.load\<close> returns, or the exception that \<^verbatim>\<open>open\<close> or
  \<^verbatim>\<open>pickle.load\<close> raises. For the threshold file: \<open>None\<close> when
  \<^verbatim>\<open>Path(THRESHOLD_PATH).exists()\<close> is false, otherwise what \<^verbatim>\<open>json.load\<close> returns or
  the exception that \<^verbatim>\<open>open\<close> or \<^verbatim>\<open>json.load\<close> raises.
\<close>

record files =
  model_file :: "exception + model"
  explainer_file :: "exception + explainer"
  feature_names_file :: "exception + string list"
  threshold_file :: "(exception + json) option"

definition DEFAULT_THRESHOLD :: json where
  "DEFAULT_THRESHOLD = JNum (Finite 0.5)"

text \<open>\<^verbatim>\<open>threshold_data.get(key, default)\<close>: only a dict has the method \<^verbatim>\<open>get\<close>.\<close>

definition json_get :: "json \<Rightarrow> string \<Rightarrow> json \<Rightarrow> exception + json" where
  "json_get threshold_data key dflt =
     (case threshold_data of
        JObject members \<Rightarrow> (case map_of members key of Some v \<Rightarrow> Inr v | None \<Rightarrow> Inr dflt)
      | _ \<Rightarrow> Inl (Raise ''AttributeError''))"

text \<open>
  \<^verbatim>\<open>_load_artifacts\<close> assigns the attributes of \<^verbatim>\<open>self\<close> in turn; the first exception
  ends it and is raised again by the handler.
\<close>

definition load_artifacts :: "files \<Rightarrow> predictor \<Rightarrow> exception + predictor" where
  "load_artifacts fs self =
     (case model_file fs of
        Inl e \<Rightarrow> Inl e
      | Inr m \<Rightarrow>
          (let self = self\<lparr>model := Some m\<rparr>
           in case explainer_file fs of
                Inl e \<Rightarrow> Inl e
              | Inr ex \<Rightarrow>
                  (let self = self\<lparr>explainer := Some ex\<rparr>
                   in case feature_names_file fs of
                        Inl e \<Rightarrow> Inl e
                      | Inr names \<Rightarrow>
                          (let self = self\<lparr>feature_names := Some names\<rparr>
                           in case threshold_file fs of
                                None \<Rightarrow> Inr self
                              | Some (Inl e) \<Rightarrow> Inl e
                              | Some (Inr threshold_data) \<Rightarrow>
                                  (case json_get threshold_data ''threshold'' DEFAULT_THRESHOLD of
                                     Inl e \<Rightarrow> Inl e
                                   | Inr t \<Rightarrow> Inr (self\<lparr>threshold := t\<rparr>))))))"

text \<open>\<^verbatim>\<open>CreditScorePredictor.__init__\<close>: an exception leaves the caller without an object.\<close>

definition CreditScorePredictor :: "files \<Rightarrow> exception + predictor" where
  "CreditScorePredictor fs =
     load_artifacts fs
       \<lparr>model = None, explainer = None, feature_names = None,
        threshold = DEFAULT_THRESHOLD\<rparr>"

text \<open>
  \<^verbatim>\<open>get_predictor\<close> works on the module-level variable \<^verbatim>\<open>_predictor\<close>, passed in and
  returned. When the constructor raises, the assignment does not happen.
\<close>

definition get_predictor ::
  "files \<Rightarrow> predictor option \<Rightarrow> (exception + predictor) \<times> predictor option" where
  "get_predictor fs global_predictor =
     (case global_predictor of
        None \<Rightarrow>
          (case CreditScorePredictor fs of
             Inl e \<Rightarrow> (Inl e, None)
           | Inr p \<Rightarrow> (Inr p, Some p))
      | Some p \<Rightarrow> (Inr p, Some p))"

text \<open>
  The start-up part of \<^verbatim>\<open>lifespan\<close> in \<^verbatim>\<open>api/main.py\<close>: it calls \<^verbatim>\<open>get_predictor\<close>
  and raises again what that raised, which aborts the start of the application.
\<close>

definition lifespan_startup ::
  "files \<Rightarrow> predictor option \<Rightarrow> (exception + unit) \<times> predictor option" where
  "lifespan_startup fs global_predictor =
     (case get_predictor fs global_predictor of
        (Inl e, g) \<Rightarrow> (Inl e, g)
      | (Inr p, g) \<Rightarrow> (Inr (), g))"

section \<open>The predictor in use\<close>

text \<open>
  Every endpoint of \<^verbatim>\<open>api/main.py\<close> obtains the predictor from \<^verbatim>\<open>get_predictor\<close> and
  calls methods of it. A \<open>call\<close> is one such use, \<open>invoke\<close> performs it on the module
  state, and \<open>run\<close> performs a sequence of them, each with the files as they are at that
  moment.
\<close>

datatype 'v call =
    IsLoaded
  | GetThreshold
  | PredictProba "(string, 'v) dict"
  | Predict "(string, 'v) dict" "float64 option"
  | GetFeatureImportance "(string, 'v) dict" int

datatype outcome =
    Failed exception
  | Loaded bool
  | Threshold json
  | Probas "float64 \<times> float64"
  | Decision "int \<times> string"
  | Importance importance

fun method_call ::
  "('v \<Rightarrow> exception + float64) \<Rightarrow> (float64 \<Rightarrow> float64 \<Rightarrow> float64) \<Rightarrow> py_sorted
     \<Rightarrow> predictor \<Rightarrow> 'v call \<Rightarrow> outcome" where
  "method_call conv add srt p IsLoaded = Loaded (is_loaded p)"
| "method_call conv add srt p GetThreshold = Threshold (get_threshold p)"
| "method_call conv add srt p (PredictProba features) =
     (case predict_proba conv p features of Inl e \<Rightarrow> Failed e | Inr r \<Rightarrow> Probas r)"
| "method_call conv add srt p (Predict features t) =
     (case predict conv p features t of Inl e \<Rightarrow> Failed e | Inr r \<Rightarrow> Decision r)"
| "method_call conv add srt p (GetFeatureImportance features top_n) =
     (case get_feature_importance conv add srt p features top_n of
        Inl e \<Rightarrow> Failed e
      | Inr r \<Rightarrow> Importance r)"

definition invoke ::
  "('v \<Rightarrow> exception + float64) \<Rightarrow> (float64 \<Rightarrow> float64 \<Rightarrow> float64) \<Rightarrow> py_sorted
     \<Rightarrow> files \<Rightarrow> 'v call \<Rightarrow> predictor option \<Rightarrow> outcome \<times> predictor option" where
  "invoke conv add srt fs c global_predictor =
     (case get_predictor fs global_predictor of
        (Inl e, g) \<Rightarrow> (Failed e, g)
      | (Inr p, g) \<Rightarrow> (method_call conv add srt p c, g))"

fun run ::
  "('v \<Rightarrow> exception + float64) \<Rightarrow> (float64 \<Rightarrow> float64 \<Rightarrow> float64) \<Rightarrow> py_sorted
     \<Rightarrow> (files \<times> 'v call) list \<Rightarrow> predictor option \<Rightarrow> predictor option" where
  "run conv add srt [] global_predictor = global_predictor"
| "run conv add srt ((fs, c) # rest) global_predictor =
     run conv add srt rest (snd (invoke conv add srt fs c global_predictor))"

section \<open>Stub artifacts\<close>

text \<open>
  Small artifacts on which the operations are evaluated: a schema of four names, a model
  that returns the probabilities 0.3 and 0.7 for every row, a model that rejects every
  input with a ValueError, and an explainer that returns fixed attributions.
\<close>

definition stub_model :: model where
  "stub_model X = Inr [[Finite 0.3, Finite 0.7]]"

definition rejecting_model :: model where
  "rejecting_model X = Inl (Raise ''ValueError'')"

definition stub_explainer :: explainer where
  "stub_explainer X =
     Inr \<lparr>exp_values = [[Finite 0.5, Finite (- 2), Finite 0, Finite 3]],
          exp_base_values = [Finite 0.25]\<rparr>"

definition stub_files :: files where
  "stub_files =
     \<lparr>model_file = Inr stub_model, explainer_file = Inr stub_explainer,
      feature_names_file = Inr [''a'', ''b'', ''c'', ''d''], threshold_file = None\<rparr>"

definition stub_predictor :: predictor where
  "stub_predictor =
     \<lparr>model = Some stub_model, explainer = Some stub_explainer,
      feature_names = Some [''a'', ''b'', ''c'', ''d''], threshold = JNum (Finite 0.48)\<rparr>"

text \<open>
  A feature value as the request layer may hand it over when nothing has validated it: a
  float, or the string \<^verbatim>\<open>"invalid"\<close>, on which numpy's conversion raises ValueError.
\<close>

datatype pyobj = PyFloat float64 | PyInvalidText

fun stub_conv :: "pyobj \<Rightarrow> exception + float64" where
  "stub_conv (PyFloat x) = Inr x"
| "stub_conv PyInvalidText = Inl (Raise ''ValueError'')"

definition rejecting_predictor :: predictor where
  "rejecting_predictor = stub_predictor\<lparr>model := Some rejecting_model\<rparr>"

text \<open>
  A predictor with a given schema whose explainer returns a given row of attributions and a
  given base value.
\<close>

definition stub_with :: "string list \<Rightarrow> float64 list \<Rightarrow> float64 \<Rightarrow> predictor" where
  "stub_with names row base =
     \<lparr>model = Some stub_model,
      explainer = Some (\<lambda>X. Inr \<lparr>exp_values = [row], exp_base_values = [base]\<rparr>),
      feature_names = Some names, threshold = JNum (Finite 0.48)\<rparr>"

text \<open>
  Addition without rounding. It is the addition of doubles wherever the exact sum of two
  doubles is a double again, as for the small integers and binary fractions that the stub
  explainers return; it is used on those only.
\<close>

fun exact_add :: "float64 \<Rightarrow> float64 \<Rightarrow> float64" where
  "exact_add NaN b = NaN"
| "exact_add a NaN = NaN"
| "exact_add (Finite a) (Finite b) = Finite (a + b)"
| "exact_add PosInf NegInf = NaN"
| "exact_add NegInf PosInf = NaN"
| "exact_add PosInf b = PosInf"
| "exact_add a PosInf = PosInf"
| "exact_add NegInf b = NegInf"
| "exact_add a NegInf = NegInf"

text \<open>
  A stable insertion sort that compares keys with \<^verbatim>\<open><\<close> only, between two reversals
  when \<^verbatim>\<open>reverse\<close> is set. On keys without NaN the order is total and every stable sort
  returns this list, the interpreter's builtin included. On the three-element list with a
  NaN key used below, CPython returns the list unchanged, as this sort does.
\<close>

fun insert_by :: "('a \<Rightarrow> float64) \<Rightarrow> 'a \<Rightarrow> 'a list \<Rightarrow> 'a list" where
  "insert_by key x [] = [x]"
| "insert_by key x (y # ys) =
     (if float_lt (key y) (key x) then y # insert_by key x ys else x # y # ys)"

definition stub_sorted :: "('a \<Rightarrow> float64) \<Rightarrow> bool \<Rightarrow> 'a list \<Rightarrow> 'a list" where
  "stub_sorted key reverse xs =
     (if reverse then rev (foldr (insert_by key) (rev xs) [])
      else foldr (insert_by key) xs [])"

text \<open>
  The stub files with an unreadable model file, and the predictor that the constructor
  builds from the stub files.
\<close>

definition broken_files :: files where
  "broken_files = stub_files\<lparr>model_file := Inl (Raise ''FileNotFoundError'')\<rparr>"

definition loaded_stub :: predictor where
  "loaded_stub =
     \<lparr>model = Some stub_model, explainer = Some stub_explainer,
      feature_names = Some [''a'', ''b'', ''c'', ''d''], threshold = JNum (Finite 0.5)\<rparr>"

section \<open>Properties of the vectorizer, the scorer and the decision engine\<close>

lemma prepare_loop_ok:
  "k + length ns \<le> length arr \<Longrightarrow>
   \<forall>n\<in>set ns. \<forall>v. map_of d n = Some v \<longrightarrow> conv v = Inr (f v) \<Longrightarrow>
   prepare_loop conv d (enumerate k ns) arr =
     Inr (take k arr @ map (\<lambda>n. case map_of d n of Some v \<Rightarrow> f v | None \<Rightarrow> NaN) ns
            @ drop (k + length ns) arr)"
proof (induction ns arbitrary: k arr)
  case Nil
  then show ?case by simp
next
  case (Cons n ns)
  let ?x = "case map_of d n of Some v \<Rightarrow> f v | None \<Rightarrow> NaN"
  from Cons.prems have k: "k < length arr" and len: "Suc k + length ns \<le> length (arr[k := ?x])"
    by simp_all
  from Cons.prems have rest: "\<forall>n\<in>set ns. \<forall>v. map_of d n = Some v \<longrightarrow> conv v = Inr (f v)"
    by simp
  have step: "prepare_loop conv d (enumerate k (n # ns)) arr =
      prepare_loop conv d (enumerate (Suc k) ns) (arr[k := ?x])"
    using k Cons.prems(2) by (simp add: setitem_def split: option.splits)
  have "take (Suc k) (arr[k := ?x]) = take k arr @ [?x]"
    using k by (simp add: take_Suc_conv_app_nth)
  then show ?case
    using Cons.IH [OF len rest] step by simp
qed

lemma prepare_loop_fails:
  "k + length ns \<le> length arr \<Longrightarrow> n \<in> set ns \<Longrightarrow> map_of d n = Some v \<Longrightarrow> conv v = Inl e \<Longrightarrow>
   \<exists>n' v' e'. n' \<in> set ns \<and> map_of d n' = Some v' \<and> conv v' = Inl e' \<and>
     prepare_loop conv d (enumerate k ns) arr = Inl e'"
proof (induction ns arbitrary: k arr)
  case Nil
  then show ?case by simp
next
  case (Cons a ns)
  from Cons.prems have k: "k < length arr" by simp
  show ?case
  proof (cases "map_of d a")
    case None
    with Cons.prems have n: "n \<in> set ns" by auto
    have len: "Suc k + length ns \<le> length (arr[k := NaN])" using Cons.prems by simp
    from Cons.IH [OF len n Cons.prems(3,4)] obtain n' v' e' where
      "n' \<in> set ns" "map_of d n' = Some v'" "conv v' = Inl e'"
      "prepare_loop conv d (enumerate (Suc k) ns) (arr[k := NaN]) = Inl e'" by blast
    then show ?thesis using None k by (auto simp: setitem_def)
  next
    case (Some w)
    show ?thesis
    proof (cases "conv w")
      case (Inl e0)
      then show ?thesis using Some by auto
    next
      case (Inr x)
      with Some Cons.prems have n: "n \<in> set ns" by auto
      have len: "Suc k + length ns \<le> length (arr[k := x])" using Cons.prems by simp
      from Cons.IH [OF len n Cons.prems(3,4)] obtain n' v' e' where
        "n' \<in> set ns" "map_of d n' = Some v'" "conv v' = Inl e'"
        "prepare_loop conv d (enumerate (Suc k) ns) (arr[k := x]) = Inl e'" by blast
      then show ?thesis using Some Inr k by (auto simp: setitem_def)
    qed
  qed
qed

lemma prepare_features_ok:
  assumes "feature_names self = Some s"
    and "\<forall>n\<in>set s. \<forall>v. map_of d n = Some v \<longrightarrow> conv v = Inr (f v)"
  shows "prepare_features conv self d =
           Inr [map (\<lambda>n. case map_of d n of Some v \<Rightarrow> f v | None \<Rightarrow> NaN) s]"
  using assms(1) prepare_loop_ok [of 0 s "replicate (length s) (Finite 0)" d conv f, OF _ assms(2)]
  by (simp add: prepare_features_def)

text \<open>
  Claim C2. For a feature map with float values and a schema \<open>s\<close>, the vectorizer returns
  one row of length \<open>|s|\<close>; its cell \<open>i\<close> is the map's value for the name \<open>s[i]\<close> when
  the map has that name, and NaN otherwise. Two maps that agree on the names of the schema
  (whatever their insertion order, whatever other names they hold) give the same row, and
  the empty map gives the row of NaNs.
\<close>

theorem vectorize_follows_schema:
  assumes "feature_names self = Some s"
  shows "\<exists>vec. prepare_features Inr self m = Inr [vec] \<and> length vec = length s
           \<and> (\<forall>i<length s. vec ! i = (case map_of m (s ! i) of Some v \<Rightarrow> v | None \<Rightarrow> NaN))
           \<and> (\<forall>m'. (\<forall>n\<in>set s. map_of m' n = map_of m n)
                  \<longrightarrow> prepare_features Inr self m' = prepare_features Inr self m)
           \<and> prepare_features Inr self [] = Inr [replicate (length s) NaN]"
proof -
  let ?row = "\<lambda>d. map (\<lambda>n. case map_of d n of Some v \<Rightarrow> v | None \<Rightarrow> NaN) s"
  have row: "prepare_features Inr self d = Inr [?row d]" for d :: "(string, float64) dict"
    using prepare_features_ok [OF assms, of d Inr "\<lambda>v. v"] by simp
  have agree: "?row m' = ?row m" if "\<forall>n\<in>set s. map_of m' n = map_of m n" for m'
    using that by (simp cong: map_cong)
  have empty: "?row [] = replicate (length s) NaN"
    by (simp add: map_replicate_const)
  show ?thesis
    using row agree empty by (intro exI [of _ "?row m"]) simp
qed

text \<open>
  Claim C2 on the schema a, b, c, d: the map \<open>{c: 3, zz: 9, a: 1}\<close> and the map
  \<open>{a: 1, c: 3}\<close> both give \<open>[1, NaN, 3, NaN]\<close>.
\<close>

theorem vectorize_follows_schema_witness:
  "feature_names stub_predictor = Some [''a'', ''b'', ''c'', ''d'']
   \<and> prepare_features Inr stub_predictor [(''c'', Finite 3), (''zz'', Finite 9), (''a'', Finite 1)]
       = Inr [[Finite 1, NaN, Finite 3, NaN]]
   \<and> prepare_features Inr stub_predictor [(''a'', Finite 1), (''c'', Finite 3)]
       = Inr [[Finite 1, NaN, Finite 3, NaN]]"
proof -
  have h: "feature_names stub_predictor = Some [''a'', ''b'', ''c'', ''d'']"
    by (simp add: stub_predictor_def)
  show ?thesis
    using h vectorize_follows_schema [OF h, of "[(''c'', Finite 3), (''zz'', Finite 9), (''a'', Finite 1)]"]
    by (simp add: prepare_features_def setitem_def)
qed

text \<open>
  Claim C6 says that the vectorizer fails on an empty feature map. On the schema
  a, b, c, d it returns the row of four NaNs instead.
\<close>

theorem vectorize_empty_map_counterexample:
  "prepare_features Inr stub_predictor [] = Inr [[NaN, NaN, NaN, NaN]]"
  by (simp add: prepare_features_def stub_predictor_def setitem_def)

text \<open>
  Claim C6, amended. Called with an empty feature map, the vectorizer does not fail: for
  every schema and every numeric conversion it returns the row of NaNs of the schema's
  length.
\<close>

theorem vectorize_empty_map_all_missing:
  assumes "feature_names self = Some s"
  shows "prepare_features conv self [] = Inr [replicate (length s) NaN]"
  using prepare_features_ok [OF assms, of "[]" conv undefined]
  by (simp add: map_replicate_const)

text \<open>Claim C6, amended, on the schema a, b, c, d.\<close>

theorem vectorize_empty_map_all_missing_witness:
  "feature_names stub_predictor = Some [''a'', ''b'', ''c'', ''d'']
   \<and> prepare_features stub_conv stub_predictor [] = Inr [[NaN, NaN, NaN, NaN]]"
proof -
  have h: "feature_names stub_predictor = Some [''a'', ''b'', ''c'', ''d'']"
    by (simp add: stub_predictor_def)
  show ?thesis
    using h vectorize_empty_map_all_missing [OF h, of stub_conv] by simp
qed

text \<open>
  Claim C1. When scoring yields the default probability \<open>p\<close> and the active threshold is
  the number \<open>t\<close> (the caller's, or the loaded one when the caller gives none),
  \<open>predict\<close> returns prediction 1 exactly when \<open>p > t\<close>, prediction 0 otherwise and in
  particular when \<open>p\<close> equals \<open>t\<close>; the label is REJECTED exactly for prediction 1 and
  APPROVED exactly for prediction 0.
\<close>

theorem predict_strict_threshold:
  assumes "predict_proba conv self F = Inr (p0, p)"
    and "threshold_arg = Some t \<or> (threshold_arg = None \<and> threshold self = JNum t)"
  shows "\<exists>prediction label. predict conv self F threshold_arg = Inr (prediction, label)
           \<and> (prediction = 1 \<longleftrightarrow> float_gt p t)
           \<and> (prediction = 0 \<longleftrightarrow> \<not> float_gt p t)
           \<and> (p = t \<longrightarrow> prediction = 0)
           \<and> (label = ''REJECTED'' \<longleftrightarrow> prediction = 1)
           \<and> (label = ''APPROVED'' \<longleftrightarrow> prediction = 0)"
proof -
  have irrefl: "\<not> float_gt t t"
    by (cases t) simp_all
  have "predict conv self F threshold_arg =
      Inr (if float_gt p t then 1 else 0, if float_gt p t then ''REJECTED'' else ''APPROVED'')"
    using assms by (auto simp: predict_def gt_threshold_def)
  then show ?thesis
    using irrefl by auto
qed

text \<open>
  Claim C1 on a score of 0.7: rejected at the loaded threshold 0.48, approved at the
  caller's threshold 0.8, and approved at the caller's threshold 0.7 (equality).
\<close>

theorem predict_strict_threshold_witness:
  "predict_proba Inr stub_predictor [(''a'', Finite 0.2), (''b'', Finite 0.9)] = Inr (Finite 0.3, Finite 0.7)
   \<and> threshold stub_predictor = JNum (Finite 0.48)
   \<and> predict Inr stub_predictor [(''a'', Finite 0.2), (''b'', Finite 0.9)] None = Inr (1, ''REJECTED'')
   \<and> predict Inr stub_predictor [(''a'', Finite 0.2), (''b'', Finite 0.9)] (Some (Finite 0.8)) = Inr (0, ''APPROVED'')
   \<and> predict Inr stub_predictor [(''a'', Finite 0.2), (''b'', Finite 0.9)] (Some (Finite 0.7)) = Inr (0, ''APPROVED'')"
proof -
  let ?F = "[(''a'', Finite 0.2), (''b'', Finite 0.9)]"
  have p: "predict_proba Inr stub_predictor ?F = Inr (Finite 0.3, Finite 0.7)"
    by (simp add: predict_proba_def prepare_features_def stub_predictor_def stub_model_def
        setitem_def getitem_def)
  have t: "threshold stub_predictor = JNum (Finite 0.48)"
    by (simp add: stub_predictor_def)
  show ?thesis
    using p t
      predict_strict_threshold [OF p, of None "Finite 0.48"]
      predict_strict_threshold [OF p, of "Some (Finite 0.8)" "Finite 0.8"]
      predict_strict_threshold [OF p, of "Some (Finite 0.7)" "Finite 0.7"]
    by auto
qed

text \<open>
  Claim C7 says that a rejected vector makes \<open>predict_proba\<close> fail with a ScoringError.
  With a model that rejects its input with a ValueError, \<open>predict_proba\<close> fails with that
  ValueError, which is not a ScoringError.
\<close>

theorem predict_proba_error_kind_counterexample:
  "prepare_features Inr rejecting_predictor [(''a'', Finite 1)] = Inr [[Finite 1, NaN, NaN, NaN]]
   \<and> rejecting_model [[Finite 1, NaN, NaN, NaN]] = Inl (Raise ''ValueError'')
   \<and> predict_proba Inr rejecting_predictor [(''a'', Finite 1)] = Inl (Raise ''ValueError'')
   \<and> predict_proba Inr rejecting_predictor [(''a'', Finite 1)] \<noteq> Inl (Raise ''ScoringError'')"
  by (simp add: predict_proba_def prepare_features_def rejecting_predictor_def stub_predictor_def
      rejecting_model_def setitem_def)

text \<open>
  Claim C7, amended. When the model rejects the vector with an exception,
  \<open>predict_proba\<close> fails with that same exception; when the feature map holds, under a name
  of the schema, a value whose numeric conversion raises, \<open>predict_proba\<close> fails with the
  exception of such a conversion. In both cases no score is returned.
\<close>

theorem predict_proba_reraises:
  "(prepare_features conv self F = Inr X \<and> model self = Some m \<and> m X = Inl e
      \<longrightarrow> predict_proba conv self F = Inl e)
   \<and> (feature_names self = Some s \<and> n \<in> set s \<and> map_of F n = Some v \<and> conv v = Inl e
      \<longrightarrow> (\<exists>n' v' e'. n' \<in> set s \<and> map_of F n' = Some v' \<and> conv v' = Inl e'
             \<and> prepare_features conv self F = Inl e' \<and> predict_proba conv self F = Inl e'))"
proof (intro conjI impI)
  assume "prepare_features conv self F = Inr X \<and> model self = Some m \<and> m X = Inl e"
  then show "predict_proba conv self F = Inl e"
    by (simp add: predict_proba_def)
next
  assume a: "feature_names self = Some s \<and> n \<in> set s \<and> map_of F n = Some v \<and> conv v = Inl e"
  then have "\<exists>n' v' e'. n' \<in> set s \<and> map_of F n' = Some v' \<and> conv v' = Inl e' \<and>
      prepare_loop conv F (enumerate 0 s) (replicate (length s) (Finite 0)) = Inl e'"
    using prepare_loop_fails [of 0 s "replicate (length s) (Finite 0)" n F v conv e] by simp
  then show "\<exists>n' v' e'. n' \<in> set s \<and> map_of F n' = Some v' \<and> conv v' = Inl e'
      \<and> prepare_features conv self F = Inl e' \<and> predict_proba conv self F = Inl e'"
    using a by (auto simp: predict_proba_def prepare_features_def)
qed

text \<open>
  Claim C7, amended, on a model that raises ValueError and on the feature map
  \<open>{b: "invalid"}\<close>.
\<close>

theorem predict_proba_reraises_witness:
  "prepare_features Inr rejecting_predictor [(''a'', Finite 1)] = Inr [[Finite 1, NaN, NaN, NaN]]
   \<and> model rejecting_predictor = Some rejecting_model
   \<and> rejecting_model [[Finite 1, NaN, NaN, NaN]] = Inl (Raise ''ValueError'')
   \<and> predict_proba Inr rejecting_predictor [(''a'', Finite 1)] = Inl (Raise ''ValueError'')
   \<and> feature_names stub_predictor = Some [''a'', ''b'', ''c'', ''d'']
   \<and> ''b'' \<in> set [''a'', ''b'', ''c'', ''d'']
   \<and> map_of [(''b'', PyInvalidText)] ''b'' = Some (PyInvalidText)
   \<and> stub_conv (PyInvalidText) = Inl (Raise ''ValueError'')
   \<and> predict_proba stub_conv stub_predictor [(''b'', PyInvalidText)] = Inl (Raise ''ValueError'')"
proof -
  have a: "prepare_features Inr rejecting_predictor [(''a'', Finite 1)] = Inr [[Finite 1, NaN, NaN, NaN]]
      \<and> model rejecting_predictor = Some rejecting_model
      \<and> rejecting_model [[Finite 1, NaN, NaN, NaN]] = Inl (Raise ''ValueError'')"
    by (simp add: prepare_features_def rejecting_predictor_def stub_predictor_def
        rejecting_model_def setitem_def)
  have b: "feature_names stub_predictor = Some [''a'', ''b'', ''c'', ''d'']
      \<and> ''b'' \<in> set [''a'', ''b'', ''c'', ''d'']
      \<and> map_of [(''b'', PyInvalidText)] ''b'' = Some (PyInvalidText)
      \<and> stub_conv (PyInvalidText) = Inl (Raise ''ValueError'')"
    by (simp add: stub_predictor_def)
  have c: "predict_proba stub_conv stub_predictor [(''b'', PyInvalidText)] = Inl (Raise ''ValueError'')"
    by (simp add: predict_proba_def prepare_features_def stub_predictor_def setitem_def)
  show ?thesis
    using a b c
      predict_proba_reraises [of Inr rejecting_predictor "[(''a'', Finite 1)]"
        "[[Finite 1, NaN, NaN, NaN]]" rejecting_model "Raise ''ValueError''"]
      predict_proba_reraises [of stub_conv stub_predictor "[(''b'', PyInvalidText)]" _ _
        "Raise ''ValueError''" "[''a'', ''b'', ''c'', ''d'']" "''b''" "PyInvalidText"]
    by simp
qed

section \<open>Properties of the attribution engine\<close>

lemma update_fresh: "k \<notin> fst ` set d \<Longrightarrow> AList.update k v d = d @ [(k, v)]"
  by (induction d) auto

lemma foldl_update_distinct:
  "distinct (map fst (d @ ps)) \<Longrightarrow> foldl (\<lambda>d (k, v). AList.update k v d) d ps = d @ ps"
proof (induction ps arbitrary: d)
  case Nil
  then show ?case by simp
next
  case (Cons p ps)
  obtain k v where p: "p = (k, v)" by (cases p)
  from Cons.prems p have fresh: "k \<notin> fst ` set d" by auto
  from Cons.prems p have "distinct (map fst ((d @ [(k, v)]) @ ps))" by auto
  from Cons.IH [OF this] show ?case using p fresh by (simp add: update_fresh)
qed

lemma dict_of_pairs_distinct: "distinct (map fst ps) \<Longrightarrow> dict_of_pairs ps = ps"
  using foldl_update_distinct [of "[]" ps] by (simp add: dict_of_pairs_def)

lemma dict_of_pairs_zip:
  assumes "distinct names"
  shows "dict_of_pairs (zip names vals) = zip names vals"
proof -
  have "distinct (map fst (zip names vals))"
    using assms by (simp add: map_fst_zip_take)
  then show ?thesis
    by (rule dict_of_pairs_distinct)
qed

lemma get_feature_importance_Inr:
  assumes "get_feature_importance conv add srt self F top_n = Inr r"
  obtains X explain shap shap_vals rows base bases names where
    "prepare_features conv self F = Inr X" "explainer self = Some explain"
    "explain X = Inr shap" "exp_values shap = shap_vals # rows"
    "exp_base_values shap = base # bases" "feature_names self = Some names"
    "shap_values r = dict_of_pairs (zip names shap_vals)"
    "top_positive_features r =
       slice_to (filter (\<lambda>(f, v). float_gt v (Finite 0))
         (srt (\<lambda>x. float_abs (snd x)) True (shap_values r))) top_n"
    "top_negative_features r =
       slice_to (filter (\<lambda>(f, v). float_lt v (Finite 0))
         (srt (\<lambda>x. float_abs (snd x)) True (shap_values r))) top_n"
    "base_value r = base" "prediction_value r = add base (py_sum add shap_vals)"
  using assms
  by (auto simp: get_feature_importance_def getitem_def Let_def neq_Nil_conv
      split: sum.splits option.splits if_splits)

lemma slice_to_take: "\<exists>k. slice_to xs n = take k xs"
  by (auto simp: slice_to_def)

lemma set_slice_to: "set (slice_to xs n) \<subseteq> set xs"
  using slice_to_take [of xs n] by (auto dest: in_set_takeD)

lemma sorted_wrt_slice_to: "sorted_wrt R xs \<Longrightarrow> sorted_wrt R (slice_to xs n)"
  using slice_to_take [of xs n] by auto

lemma length_slice_to: "0 \<le> n \<Longrightarrow> length (slice_to xs n) \<le> nat n"
  by (simp add: slice_to_def)

lemma float_abs_NaN: "float_abs v = NaN \<longleftrightarrow> v = NaN"
  by (cases v) simp_all

lemma float_ge_trans: "float_ge a b \<Longrightarrow> float_ge b c \<Longrightarrow> float_ge a c"
  by (cases a; cases b; cases c) (simp_all add: float_ge_def)

lemma float_lt_ge: "float_lt a b \<Longrightarrow> float_ge b a"
  by (cases a; cases b) (simp_all add: float_ge_def float_lt_def)

lemma not_float_lt_ge: "a \<noteq> NaN \<Longrightarrow> b \<noteq> NaN \<Longrightarrow> \<not> float_lt a b \<Longrightarrow> float_ge a b"
  by (simp add: float_ge_def float_lt_def)

lemma set_insert_by: "set (insert_by key x xs) = insert x (set xs)"
  by (induction xs) auto

lemma set_foldr_insert_by: "set (foldr (insert_by key) xs []) = set xs"
  by (induction xs) (simp_all add: set_insert_by)

lemma sorted_insert_by:
  assumes "key x \<noteq> NaN" and "\<forall>y\<in>set xs. key y \<noteq> NaN"
    and "sorted_wrt (\<lambda>a b. float_ge (key b) (key a)) xs"
  shows "sorted_wrt (\<lambda>a b. float_ge (key b) (key a)) (insert_by key x xs)"
  using assms
proof (induction xs)
  case Nil
  then show ?case by simp
next
  case (Cons y ys)
  show ?case
  proof (cases "float_lt (key y) (key x)")
    case True
    then have "float_ge (key x) (key y)" by (rule float_lt_ge)
    then show ?thesis
      using True Cons by (auto simp: set_insert_by)
  next
    case False
    with Cons.prems have xy: "float_ge (key y) (key x)"
      by (simp add: not_float_lt_ge)
    have "float_ge (key z) (key x)" if "z \<in> set ys" for z
      using that Cons.prems(3) xy by (auto intro: float_ge_trans)
    then show ?thesis
      using False xy Cons.prems(3) by auto
  qed
qed

lemma sorted_foldr_insert_by:
  "\<forall>y\<in>set xs. key y \<noteq> NaN \<Longrightarrow>
   sorted_wrt (\<lambda>a b. float_ge (key b) (key a)) (foldr (insert_by key) xs [])"
  by (induction xs) (simp_all add: sorted_insert_by set_foldr_insert_by)

lemma set_stub_sorted: "set (stub_sorted key reverse xs) = set xs"
  by (simp add: stub_sorted_def set_foldr_insert_by)

lemma stub_sorted_descending:
  assumes "\<forall>x\<in>set xs. key x \<noteq> NaN"
  shows "sorted_wrt (\<lambda>a b. float_ge (key a) (key b)) (stub_sorted key True xs)"
  using sorted_foldr_insert_by [of "rev xs" key] assms
  by (simp add: stub_sorted_def sorted_wrt_rev)


lemma ranked_subset:
  assumes "set (srt key True d) \<subseteq> set d"
  shows "set (slice_to (filter P (srt key True d)) n) \<subseteq> {x \<in> set d. P x}"
  using assms set_slice_to [of "filter P (srt key True d)" n] by auto

lemma ranked_sorted:
  assumes "sorted_wrt R (srt key True d)"
  shows "sorted_wrt R (slice_to (filter P (srt key True d)) n)"
  using assms by (intro sorted_wrt_slice_to sorted_wrt_filter)

text \<open>
  Claim C3 says that the prediction value is the base value plus the sum of the values of
  the returned mapping, within a relative tolerance of \<open>10\<^sup>-\<^sup>6\<close>, for every feature map.
  With the schema a, b, a and the attributions 1, 2, 3 the mapping keeps one value for a:
  the prediction value is 6 and the mapping sums to 5. With the schema a, b and a row of
  three attributions 1, 2, 4 the prediction value is 7 and the mapping sums to 3. With an
  attribution that is NaN the prediction value is NaN, which equals nothing.
\<close>

theorem reconstruction_counterexample:
  "get_feature_importance Inr exact_add stub_sorted
      (stub_with [''a'', ''b'', ''a''] [Finite 1, Finite 2, Finite 3] (Finite 0)) [] 10 =
     Inr \<lparr>shap_values = [(''a'', Finite 3), (''b'', Finite 2)],
          top_positive_features = [(''a'', Finite 3), (''b'', Finite 2)],
          top_negative_features = [],
          base_value = Finite 0, prediction_value = Finite 6\<rparr>
   \<and> exact_add (Finite 0) (py_sum exact_add (map snd [(''a'', Finite 3), (''b'', Finite 2)]))
       = Finite 5
   \<and> \<not> \<bar>6 - 5 :: real\<bar> \<le> 1 / 10 ^ 6 * max \<bar>6\<bar> \<bar>5\<bar>
   \<and> get_feature_importance Inr exact_add stub_sorted
      (stub_with [''a'', ''b''] [Finite 1, Finite 2, Finite 4] (Finite 0)) [] 10 =
     Inr \<lparr>shap_values = [(''a'', Finite 1), (''b'', Finite 2)],
          top_positive_features = [(''b'', Finite 2), (''a'', Finite 1)],
          top_negative_features = [],
          base_value = Finite 0, prediction_value = Finite 7\<rparr>
   \<and> exact_add (Finite 0) (py_sum exact_add (map snd [(''a'', Finite 1), (''b'', Finite 2)]))
       = Finite 3
   \<and> \<not> \<bar>7 - 3 :: real\<bar> \<le> 1 / 10 ^ 6 * max \<bar>7\<bar> \<bar>3\<bar>
   \<and> get_feature_importance Inr exact_add stub_sorted
      (stub_with [''a'', ''b'', ''c''] [Finite 1, NaN, Finite 2] (Finite 0)) [] 10 =
     Inr \<lparr>shap_values = [(''a'', Finite 1), (''b'', NaN), (''c'', Finite 2)],
          top_positive_features = [(''a'', Finite 1), (''c'', Finite 2)],
          top_negative_features = [],
          base_value = Finite 0, prediction_value = NaN\<rparr>
   \<and> \<not> float_eq NaN
         (exact_add (Finite 0)
            (py_sum exact_add (map snd [(''a'', Finite 1), (''b'', NaN), (''c'', Finite 2)])))"
  by (simp add: get_feature_importance_def prepare_features_def stub_with_def
      setitem_def getitem_def dict_of_pairs_def stub_sorted_def slice_to_def py_sum_def
      float_lt_def float_eq_def Let_def)

text \<open>
  Claim C3, amended. For a schema of distinct names and an explainer that returns no more
  attributions per row than the schema has names, every result of
  \<open>get_feature_importance\<close> has as its prediction value the very double obtained by
  adding, with the addition of doubles the code uses, the base value and the left-to-right
  sum of the values of the returned mapping; unless that double is NaN the two compare
  equal, hence within every tolerance.
\<close>

theorem attribution_reconstruction:
  assumes "get_feature_importance conv add srt self F top_n = Inr r"
    and "feature_names self = Some names" and "distinct names"
    and "explainer self = Some explain"
    and "\<forall>X shap. explain X = Inr shap \<longrightarrow> (\<forall>row\<in>set (exp_values shap). length row \<le> length names)"
  shows "prediction_value r = add (base_value r) (py_sum add (map snd (shap_values r)))
       \<and> (prediction_value r \<noteq> NaN \<longrightarrow>
            float_eq (prediction_value r)
              (add (base_value r) (py_sum add (map snd (shap_values r)))))"
proof -
  from assms(1) obtain X explain' shap shap_vals rows base names' where
    ex: "explainer self = Some explain'" "explain' X = Inr shap"
      "exp_values shap = shap_vals # rows"
    and ns: "feature_names self = Some names'"
    and r: "shap_values r = dict_of_pairs (zip names' shap_vals)"
      "base_value r = base" "prediction_value r = add base (py_sum add shap_vals)"
    by (rule get_feature_importance_Inr)
  from ns assms(2) have names: "names' = names" by simp
  from ex assms(4,5) have len: "length shap_vals \<le> length names" by auto
  have "shap_values r = zip names shap_vals"
    using r(1) names assms(3) by (simp add: dict_of_pairs_zip)
  then have "map snd (shap_values r) = shap_vals"
    using len by (simp add: map_snd_zip_take)
  then have "prediction_value r = add (base_value r) (py_sum add (map snd (shap_values r)))"
    using r(2,3) by simp
  then show ?thesis
    by (simp add: float_eq_def)
qed

text \<open>
  Claim C3, amended, on the stub explainer: base 0.25 and attributions 0.5, -2, 0, 3 give
  the prediction value 1.75.
\<close>

theorem attribution_reconstruction_witness:
  "get_feature_importance Inr exact_add stub_sorted stub_predictor [(''a'', Finite 1)] 10 =
     Inr \<lparr>shap_values =
            [(''a'', Finite 0.5), (''b'', Finite (- 2)), (''c'', Finite 0), (''d'', Finite 3)],
          top_positive_features = [(''d'', Finite 3), (''a'', Finite 0.5)],
          top_negative_features = [(''b'', Finite (- 2))],
          base_value = Finite 0.25, prediction_value = Finite 1.75\<rparr>
   \<and> feature_names stub_predictor = Some [''a'', ''b'', ''c'', ''d'']
   \<and> distinct [''a'', ''b'', ''c'', ''d'']
   \<and> explainer stub_predictor = Some stub_explainer
   \<and> stub_explainer [[Finite 1, NaN, NaN, NaN]]
        = Inr \<lparr>exp_values = [[Finite 0.5, Finite (- 2), Finite 0, Finite 3]],
               exp_base_values = [Finite 0.25]\<rparr>
   \<and> Finite 1.75 =
        exact_add (Finite 0.25)
          (py_sum exact_add
             (map snd [(''a'', Finite 0.5), (''b'', Finite (- 2)), (''c'', Finite 0),
                       (''d'', Finite 3)]))
   \<and> float_eq (Finite 1.75) (Finite 1.75)"
proof -
  let ?r = "\<lparr>shap_values =
            [(''a'', Finite 0.5), (''b'', Finite (- 2)), (''c'', Finite 0), (''d'', Finite 3)],
          top_positive_features = [(''d'', Finite 3), (''a'', Finite 0.5)],
          top_negative_features = [(''b'', Finite (- 2))],
          base_value = Finite 0.25, prediction_value = Finite 1.75\<rparr>"
  have run: "get_feature_importance Inr exact_add stub_sorted stub_predictor [(''a'', Finite 1)] 10
      = Inr ?r"
    by (simp add: get_feature_importance_def prepare_features_def stub_predictor_def
        stub_explainer_def setitem_def getitem_def dict_of_pairs_def stub_sorted_def
        slice_to_def py_sum_def float_lt_def)
  have ns: "feature_names stub_predictor = Some [''a'', ''b'', ''c'', ''d'']"
    and ex: "explainer stub_predictor = Some stub_explainer"
    by (simp_all add: stub_predictor_def)
  have d: "distinct [''a'', ''b'', ''c'', ''d'']" by simp
  have shape: "\<forall>X shap. stub_explainer X = Inr shap \<longrightarrow>
      (\<forall>row\<in>set (exp_values shap). length row \<le> length [''a'', ''b'', ''c'', ''d''])"
    by (auto simp: stub_explainer_def)
  show ?thesis
    using run ns d ex attribution_reconstruction [OF run ns d ex shape]
    by (simp add: stub_explainer_def float_eq_def)
qed

text \<open>
  Claim C4 bounds both ranked lists by \<open>top_n\<close> for every \<open>top_n\<close>, has them sorted for
  every feature map, and keeps zero attributions in the mapping. With \<open>top_n = -1\<close> the
  slice drops the last positive entry and keeps the other one: one entry, which is more
  than -1. With the attributions 1, NaN, 2 the sort leaves the list as it is and the
  top-positive list is 1, 2, which is increasing. With the schema a, b, a and the
  attributions 0, 2, 3 the zero attribution of the first column is overwritten: the
  mapping holds no zero.
\<close>

theorem ranked_lists_counterexample:
  "get_feature_importance Inr exact_add stub_sorted stub_predictor [(''a'', Finite 1)] (- 1) =
     Inr \<lparr>shap_values =
            [(''a'', Finite 0.5), (''b'', Finite (- 2)), (''c'', Finite 0), (''d'', Finite 3)],
          top_positive_features = [(''d'', Finite 3)],
          top_negative_features = [],
          base_value = Finite 0.25, prediction_value = Finite 1.75\<rparr>
   \<and> \<not> int (length [(''d'', Finite 3)]) \<le> - 1
   \<and> get_feature_importance Inr exact_add stub_sorted
      (stub_with [''a'', ''b'', ''c''] [Finite 1, NaN, Finite 2] (Finite 0)) [] 10 =
     Inr \<lparr>shap_values = [(''a'', Finite 1), (''b'', NaN), (''c'', Finite 2)],
          top_positive_features = [(''a'', Finite 1), (''c'', Finite 2)],
          top_negative_features = [],
          base_value = Finite 0, prediction_value = NaN\<rparr>
   \<and> \<not> float_ge (float_abs (Finite 1)) (float_abs (Finite 2))
   \<and> get_feature_importance Inr exact_add stub_sorted
      (stub_with [''a'', ''b'', ''a''] [Finite 0, Finite 2, Finite 3] (Finite 0)) [] 10 =
     Inr \<lparr>shap_values = [(''a'', Finite 3), (''b'', Finite 2)],
          top_positive_features = [(''a'', Finite 3), (''b'', Finite 2)],
          top_negative_features = [],
          base_value = Finite 0, prediction_value = Finite 5\<rparr>
   \<and> Finite 0 \<notin> snd ` set [(''a'', Finite 3), (''b'', Finite 2)]"
  by (simp add: get_feature_importance_def prepare_features_def stub_with_def
      stub_predictor_def stub_explainer_def setitem_def getitem_def dict_of_pairs_def
      stub_sorted_def slice_to_def py_sum_def float_lt_def float_ge_def Let_def)

text \<open>
  Claim C4, amended. Let the builtin \<^verbatim>\<open>sorted\<close> return, with \<^verbatim>\<open>reverse=True\<close>, elements
  of its input, in non-increasing key order when no key is NaN. Then in every result of
  \<open>get_feature_importance\<close>: each entry of the top-positive list has a value above 0 and
  each entry of the top-negative list a value below 0; no zero-valued entry is in either
  list; both lists are drawn from the full attribution mapping, which for a schema of
  distinct names is the schema zipped with the explainer's row, zeros included; when
  \<open>top_n\<close> is not negative neither list has more than \<open>top_n\<close> entries; and when no
  value of the mapping is NaN each list is in non-increasing order of absolute value.
\<close>

theorem sign_partition:
  assumes perm: "\<And>key xs. set (srt key True xs) \<subseteq> set xs"
    and desc: "\<And>key xs. \<forall>x\<in>set xs. key x \<noteq> NaN \<Longrightarrow>
                 sorted_wrt (\<lambda>a b. float_ge (key a) (key b)) (srt key True xs)"
    and run: "get_feature_importance conv add srt self F top_n = Inr r"
  shows "(\<forall>(f, v)\<in>set (top_positive_features r). float_gt v (Finite 0))
       \<and> (\<forall>(f, v)\<in>set (top_negative_features r). float_lt v (Finite 0))
       \<and> (\<forall>f. (f, Finite 0) \<notin> set (top_positive_features r)
              \<and> (f, Finite 0) \<notin> set (top_negative_features r))
       \<and> set (top_positive_features r) \<subseteq> set (shap_values r)
       \<and> set (top_negative_features r) \<subseteq> set (shap_values r)
       \<and> (\<forall>names X explain shap. feature_names self = Some names \<and> distinct names
             \<and> prepare_features conv self F = Inr X \<and> explainer self = Some explain
             \<and> explain X = Inr shap
             \<longrightarrow> shap_values r = zip names (hd (exp_values shap)))
       \<and> (0 \<le> top_n \<longrightarrow> length (top_positive_features r) \<le> nat top_n
                          \<and> length (top_negative_features r) \<le> nat top_n)
       \<and> ((\<forall>(f, v)\<in>set (shap_values r). v \<noteq> NaN) \<longrightarrow>
            sorted_wrt (\<lambda>a b. float_ge (float_abs (snd a)) (float_abs (snd b)))
              (top_positive_features r)
          \<and> sorted_wrt (\<lambda>a b. float_ge (float_abs (snd a)) (float_abs (snd b)))
              (top_negative_features r))"
proof -
  let ?key = "\<lambda>x :: string \<times> float64. float_abs (snd x)"
  let ?R = "\<lambda>a b :: string \<times> float64. float_ge (float_abs (snd a)) (float_abs (snd b))"
  from run obtain X explain shap shap_vals rows names where
    src: "prepare_features conv self F = Inr X" "explainer self = Some explain"
      "explain X = Inr shap" "exp_values shap = shap_vals # rows"
      "feature_names self = Some names"
    and d: "shap_values r = dict_of_pairs (zip names shap_vals)"
    and pos: "top_positive_features r =
       slice_to (filter (\<lambda>(f, v). float_gt v (Finite 0)) (srt ?key True (shap_values r))) top_n"
    and neg: "top_negative_features r =
       slice_to (filter (\<lambda>(f, v). float_lt v (Finite 0)) (srt ?key True (shap_values r))) top_n"
    by (rule get_feature_importance_Inr)
  have P: "set (top_positive_features r)
      \<subseteq> {x \<in> set (shap_values r). (\<lambda>(f, v). float_gt v (Finite 0)) x}"
    unfolding pos by (rule ranked_subset) (rule perm)
  have N: "set (top_negative_features r)
      \<subseteq> {x \<in> set (shap_values r). (\<lambda>(f, v). float_lt v (Finite 0)) x}"
    unfolding neg by (rule ranked_subset) (rule perm)
  have signs: "(\<forall>(f, v)\<in>set (top_positive_features r). float_gt v (Finite 0))
      \<and> (\<forall>(f, v)\<in>set (top_negative_features r). float_lt v (Finite 0))"
    using P N by auto
  then have zeros: "\<forall>f. (f, Finite 0) \<notin> set (top_positive_features r)
      \<and> (f, Finite 0) \<notin> set (top_negative_features r)"
    by (fastforce simp: float_lt_def)
  have subset: "set (top_positive_features r) \<subseteq> set (shap_values r)
      \<and> set (top_negative_features r) \<subseteq> set (shap_values r)"
    using P N by auto
  have full: "\<forall>names X explain shap. feature_names self = Some names \<and> distinct names
             \<and> prepare_features conv self F = Inr X \<and> explainer self = Some explain
             \<and> explain X = Inr shap
             \<longrightarrow> shap_values r = zip names (hd (exp_values shap))"
    using src d by (auto simp: dict_of_pairs_zip)
  have bound: "0 \<le> top_n \<longrightarrow> length (top_positive_features r) \<le> nat top_n
      \<and> length (top_negative_features r) \<le> nat top_n"
    unfolding pos neg by (simp add: length_slice_to)
  have order: "sorted_wrt ?R (top_positive_features r) \<and> sorted_wrt ?R (top_negative_features r)"
    if nonan: "\<forall>(f, v)\<in>set (shap_values r). v \<noteq> NaN"
  proof -
    from nonan have "\<forall>x\<in>set (shap_values r). ?key x \<noteq> NaN"
      by (auto simp: float_abs_NaN)
    then have "sorted_wrt ?R (srt ?key True (shap_values r))"
      by (rule desc)
    then show ?thesis
      unfolding pos neg by (simp add: ranked_sorted)
  qed
  show ?thesis
    using signs zeros subset full bound order by blast
qed

text \<open>
  Claim C4, amended, with \<open>top_n = 2\<close> and the insertion sort for \<^verbatim>\<open>sorted\<close>: two
  positive entries in decreasing order, one negative entry, and the zero attribution of c
  kept in the mapping only.
\<close>

theorem sign_partition_witness:
  "get_feature_importance Inr exact_add stub_sorted stub_predictor [(''a'', Finite 1)] 2 =
     Inr \<lparr>shap_values =
            [(''a'', Finite 0.5), (''b'', Finite (- 2)), (''c'', Finite 0), (''d'', Finite 3)],
          top_positive_features = [(''d'', Finite 3), (''a'', Finite 0.5)],
          top_negative_features = [(''b'', Finite (- 2))],
          base_value = Finite 0.25, prediction_value = Finite 1.75\<rparr>
   \<and> (0 :: int) \<le> 2
   \<and> NaN \<notin> snd ` set [(''a'', Finite 0.5), (''b'', Finite (- 2)), (''c'', Finite 0),
                         (''d'', Finite 3)]
   \<and> feature_names stub_predictor = Some [''a'', ''b'', ''c'', ''d'']
   \<and> distinct [''a'', ''b'', ''c'', ''d'']
   \<and> prepare_features Inr stub_predictor [(''a'', Finite 1)] = Inr [[Finite 1, NaN, NaN, NaN]]
   \<and> explainer stub_predictor = Some stub_explainer
   \<and> stub_explainer [[Finite 1, NaN, NaN, NaN]]
        = Inr \<lparr>exp_values = [[Finite 0.5, Finite (- 2), Finite 0, Finite 3]],
               exp_base_values = [Finite 0.25]\<rparr>
   \<and> float_ge (float_abs (Finite 3)) (float_abs (Finite 0.5))
   \<and> (''c'', Finite 0) \<in> set [(''a'', Finite 0.5), (''b'', Finite (- 2)), (''c'', Finite 0),
                                (''d'', Finite 3)]"
proof -
  let ?r = "\<lparr>shap_values =
            [(''a'', Finite 0.5), (''b'', Finite (- 2)), (''c'', Finite 0), (''d'', Finite 3)],
          top_positive_features = [(''d'', Finite 3), (''a'', Finite 0.5)],
          top_negative_features = [(''b'', Finite (- 2))],
          base_value = Finite 0.25, prediction_value = Finite 1.75\<rparr>"
  have run: "get_feature_importance Inr exact_add stub_sorted stub_predictor [(''a'', Finite 1)] 2
      = Inr ?r"
    by (simp add: get_feature_importance_def prepare_features_def stub_predictor_def
        stub_explainer_def setitem_def getitem_def dict_of_pairs_def stub_sorted_def
        slice_to_def py_sum_def float_lt_def)
  have perm: "set (stub_sorted key True xs) \<subseteq> set xs"
    for key :: "string \<times> float64 \<Rightarrow> float64" and xs
    by (simp add: set_stub_sorted)
  have desc: "sorted_wrt (\<lambda>a b. float_ge (key a) (key b)) (stub_sorted key True xs)"
    if "\<forall>x\<in>set xs. key x \<noteq> NaN" for key :: "string \<times> float64 \<Rightarrow> float64" and xs
    using that by (rule stub_sorted_descending)
  have rest: "feature_names stub_predictor = Some [''a'', ''b'', ''c'', ''d'']
      \<and> prepare_features Inr stub_predictor [(''a'', Finite 1)] = Inr [[Finite 1, NaN, NaN, NaN]]
      \<and> explainer stub_predictor = Some stub_explainer
      \<and> stub_explainer [[Finite 1, NaN, NaN, NaN]]
           = Inr \<lparr>exp_values = [[Finite 0.5, Finite (- 2), Finite 0, Finite 3]],
                  exp_base_values = [Finite 0.25]\<rparr>"
    by (simp add: prepare_features_def stub_predictor_def stub_explainer_def setitem_def)
  show ?thesis
    using run rest sign_partition [of stub_sorted, OF perm desc run]
    by (simp add: float_ge_def)
qed

section \<open>Properties of the artifact store and of the predictor in use\<close>

lemma load_artifacts_cases:
  "load_artifacts fs self =
     (case model_file fs of
        Inl e \<Rightarrow> Inl e
      | Inr m \<Rightarrow>
          (case explainer_file fs of
             Inl e \<Rightarrow> Inl e
           | Inr ex \<Rightarrow>
               (case feature_names_file fs of
                  Inl e \<Rightarrow> Inl e
                | Inr names \<Rightarrow>
                    (case threshold_file fs of
                       None \<Rightarrow>
                         Inr (self\<lparr>model := Some m, explainer := Some ex,
                                   feature_names := Some names\<rparr>)
                     | Some (Inl e) \<Rightarrow> Inl e
                     | Some (Inr threshold_data) \<Rightarrow>
                         (case json_get threshold_data ''threshold'' DEFAULT_THRESHOLD of
                            Inl e \<Rightarrow> Inl e
                          | Inr t \<Rightarrow>
                              Inr (self\<lparr>model := Some m, explainer := Some ex,
                                        feature_names := Some names, threshold := t\<rparr>))))))"
  by (simp add: load_artifacts_def Let_def split: sum.splits option.splits)

lemma get_predictor_loaded: "get_predictor fs (Some p) = (Inr p, Some p)"
  by (simp add: get_predictor_def)

lemma invoke_loaded:
  "invoke conv add srt fs c (Some p) = (method_call conv add srt p c, Some p)"
  by (simp add: invoke_def get_predictor_loaded)

lemma run_loaded: "run conv add srt reqs (Some p) = Some p"
  by (induction reqs) (auto simp: invoke_loaded)

lemma get_predictor_Inr: "get_predictor fs g = (Inr p, g') \<Longrightarrow> g' = Some p"
  by (auto simp: get_predictor_def split: option.splits sum.splits)

text \<open>
  Claim C5. When the three pickled artifacts load and the threshold file is absent, the
  predictor is constructed with the threshold 0.5 and start-up succeeds. When the model, the
  explainer or the feature-name list fails to load, the constructor fails with the
  exception of such a failure, \<open>get_predictor\<close> and the start-up hook raise it again, and
  the module-level predictor stays unset.
\<close>

theorem load_threshold_optional_artifacts_fatal:
  "(model_file fs = Inr m \<and> explainer_file fs = Inr ex \<and> feature_names_file fs = Inr names
      \<and> threshold_file fs = None
      \<longrightarrow> CreditScorePredictor fs =
            Inr \<lparr>model = Some m, explainer = Some ex, feature_names = Some names,
                 threshold = JNum (Finite 0.5)\<rparr>
          \<and> lifespan_startup fs None =
            (Inr (), Some \<lparr>model = Some m, explainer = Some ex, feature_names = Some names,
                           threshold = JNum (Finite 0.5)\<rparr>))
   \<and> (model_file fs = Inl e \<or> explainer_file fs = Inl e \<or> feature_names_file fs = Inl e
      \<longrightarrow> (\<exists>e'. (model_file fs = Inl e' \<or> explainer_file fs = Inl e' \<or> feature_names_file fs = Inl e')
             \<and> CreditScorePredictor fs = Inl e'
             \<and> get_predictor fs None = (Inl e', None)
             \<and> lifespan_startup fs None = (Inl e', None)))"
proof (rule conjI; rule impI)
  assume a: "model_file fs = Inr m \<and> explainer_file fs = Inr ex \<and> feature_names_file fs = Inr names
      \<and> threshold_file fs = None"
  then have c: "CreditScorePredictor fs =
      Inr \<lparr>model = Some m, explainer = Some ex, feature_names = Some names,
           threshold = JNum (Finite 0.5)\<rparr>"
    by (simp add: CreditScorePredictor_def load_artifacts_cases DEFAULT_THRESHOLD_def)
  then show "CreditScorePredictor fs =
            Inr \<lparr>model = Some m, explainer = Some ex, feature_names = Some names,
                 threshold = JNum (Finite 0.5)\<rparr>
          \<and> lifespan_startup fs None =
            (Inr (), Some \<lparr>model = Some m, explainer = Some ex, feature_names = Some names,
                           threshold = JNum (Finite 0.5)\<rparr>)"
    by (simp add: lifespan_startup_def get_predictor_def)
next
  assume "model_file fs = Inl e \<or> explainer_file fs = Inl e \<or> feature_names_file fs = Inl e"
  then have "\<exists>e'. (model_file fs = Inl e' \<or> explainer_file fs = Inl e' \<or> feature_names_file fs = Inl e')
      \<and> CreditScorePredictor fs = Inl e'"
    by (cases "model_file fs"; cases "explainer_file fs"; cases "feature_names_file fs")
      (auto simp: CreditScorePredictor_def load_artifacts_cases)
  then show "\<exists>e'. (model_file fs = Inl e' \<or> explainer_file fs = Inl e' \<or> feature_names_file fs = Inl e')
             \<and> CreditScorePredictor fs = Inl e'
             \<and> get_predictor fs None = (Inl e', None)
             \<and> lifespan_startup fs None = (Inl e', None)"
    by (auto simp: lifespan_startup_def get_predictor_def)
qed

text \<open>
  Claim C5 on the stub files, which have no threshold file, and on the same files with an
  explainer file that cannot be opened.
\<close>

theorem load_threshold_optional_artifacts_fatal_witness:
  "model_file stub_files = Inr stub_model \<and> explainer_file stub_files = Inr stub_explainer
   \<and> feature_names_file stub_files = Inr [''a'', ''b'', ''c'', ''d'']
   \<and> threshold_file stub_files = None
   \<and> CreditScorePredictor stub_files =
       Inr \<lparr>model = Some stub_model, explainer = Some stub_explainer,
            feature_names = Some [''a'', ''b'', ''c'', ''d''], threshold = JNum (Finite 0.5)\<rparr>
   \<and> explainer_file (stub_files\<lparr>explainer_file := Inl (Raise ''FileNotFoundError'')\<rparr>)
       = Inl (Raise ''FileNotFoundError'')
   \<and> lifespan_startup (stub_files\<lparr>explainer_file := Inl (Raise ''FileNotFoundError'')\<rparr>) None
       = (Inl (Raise ''FileNotFoundError''), None)"
proof -
  let ?bad = "stub_files\<lparr>explainer_file := Inl (Raise ''FileNotFoundError'')\<rparr>"
  have ok: "model_file stub_files = Inr stub_model \<and> explainer_file stub_files = Inr stub_explainer
      \<and> feature_names_file stub_files = Inr [''a'', ''b'', ''c'', ''d'']
      \<and> threshold_file stub_files = None"
    by (simp add: stub_files_def)
  have bad: "model_file ?bad = Inr stub_model \<and> explainer_file ?bad = Inl (Raise ''FileNotFoundError'')
      \<and> feature_names_file ?bad = Inr [''a'', ''b'', ''c'', ''d'']"
    by (simp add: stub_files_def)
  show ?thesis
    using ok bad
      load_threshold_optional_artifacts_fatal [of stub_files stub_model stub_explainer
        "[''a'', ''b'', ''c'', ''d'']"]
      load_threshold_optional_artifacts_fatal [of ?bad _ _ _ "Raise ''FileNotFoundError''"]
    by auto
qed

text \<open>
  Claim C10. When the threshold file exists and holds a JSON object without the member
  \<open>threshold\<close>, and the three pickled artifacts load, the predictor is constructed with
  the threshold 0.5: the same result as with no threshold file.
\<close>

theorem threshold_field_missing_defaults:
  assumes "model_file fs = Inr m" and "explainer_file fs = Inr ex"
    and "feature_names_file fs = Inr names"
    and "threshold_file fs = Some (Inr (JObject members))"
    and "''threshold'' \<notin> fst ` set members"
  shows "CreditScorePredictor fs =
           Inr \<lparr>model = Some m, explainer = Some ex, feature_names = Some names,
                threshold = JNum (Finite 0.5)\<rparr>
       \<and> CreditScorePredictor fs = CreditScorePredictor (fs\<lparr>threshold_file := None\<rparr>)"
proof -
  from assms(5) have "map_of members ''threshold'' = None"
    by (simp add: map_of_eq_None_iff)
  then show ?thesis
    using assms(1-4)
    by (simp add: CreditScorePredictor_def load_artifacts_cases json_get_def DEFAULT_THRESHOLD_def)
qed

text \<open>Claim C10 on a threshold file holding \<open>{"cost": 10}\<close>.\<close>

theorem threshold_field_missing_defaults_witness:
  "model_file (stub_files\<lparr>threshold_file := Some (Inr (JObject [(''cost'', JNum (Finite 10))]))\<rparr>)
     = Inr stub_model
   \<and> threshold_file (stub_files\<lparr>threshold_file := Some (Inr (JObject [(''cost'', JNum (Finite 10))]))\<rparr>)
     = Some (Inr (JObject [(''cost'', JNum (Finite 10))]))
   \<and> ''threshold'' \<notin> fst ` set [(''cost'', JNum (Finite 10))]
   \<and> CreditScorePredictor (stub_files\<lparr>threshold_file := Some (Inr (JObject [(''cost'', JNum (Finite 10))]))\<rparr>)
     = Inr \<lparr>model = Some stub_model, explainer = Some stub_explainer,
            feature_names = Some [''a'', ''b'', ''c'', ''d''], threshold = JNum (Finite 0.5)\<rparr>"
proof -
  let ?fs = "stub_files\<lparr>threshold_file := Some (Inr (JObject [(''cost'', JNum (Finite 10))]))\<rparr>"
  have m: "model_file ?fs = Inr stub_model" and x: "explainer_file ?fs = Inr stub_explainer"
    and n: "feature_names_file ?fs = Inr [''a'', ''b'', ''c'', ''d'']"
    and t: "threshold_file ?fs = Some (Inr (JObject [(''cost'', JNum (Finite 10))]))"
    by (simp_all add: stub_files_def)
  have k: "''threshold'' \<notin> fst ` set [(''cost'', JNum (Finite 10))]"
    by simp
  show ?thesis
    using m t k threshold_field_missing_defaults [OF m x n t k] by simp
qed

text \<open>
  Claim C9. The first call of \<open>get_predictor\<close> runs the constructor and, when it
  succeeds, stores the predictor. Once a call has returned a predictor, every later call
  returns that predictor whatever the files hold by then, and no use of the predictor
  (\<open>is_loaded\<close>, \<open>get_threshold\<close>, \<open>predict_proba\<close>, \<open>predict\<close>,
  \<open>get_feature_importance\<close>), alone or in sequence, changes the stored predictor.
\<close>

theorem get_predictor_idempotent:
  "get_predictor fs None =
     (case CreditScorePredictor fs of Inl e \<Rightarrow> (Inl e, None) | Inr p \<Rightarrow> (Inr p, Some p))
   \<and> (get_predictor fs g = (Inr p, g')
      \<longrightarrow> g' = Some p
        \<and> (\<forall>fs'. get_predictor fs' g' = (Inr p, g'))
        \<and> (\<forall>fs' c. snd (invoke conv add srt fs' c g') = g')
        \<and> (\<forall>reqs. run conv add srt reqs g' = g')
        \<and> (\<forall>reqs fs'. get_predictor fs' (run conv add srt reqs g') = (Inr p, g')))"
proof (intro conjI impI)
  show "get_predictor fs None =
     (case CreditScorePredictor fs of Inl e \<Rightarrow> (Inl e, None) | Inr p \<Rightarrow> (Inr p, Some p))"
    by (simp add: get_predictor_def)
next
  assume "get_predictor fs g = (Inr p, g')"
  then have g': "g' = Some p" by (rule get_predictor_Inr)
  then show "g' = Some p" .
  show "\<forall>fs'. get_predictor fs' g' = (Inr p, g')"
    by (simp add: g' get_predictor_loaded)
  show "\<forall>fs' c. snd (invoke conv add srt fs' c g') = g'"
    by (simp add: g' invoke_loaded)
  show "\<forall>reqs. run conv add srt reqs g' = g'"
    by (simp add: g' run_loaded)
  show "\<forall>reqs fs'. get_predictor fs' (run conv add srt reqs g') = (Inr p, g')"
    by (simp add: g' run_loaded get_predictor_loaded)
qed


lemma get_predictor_stub: "get_predictor stub_files None = (Inr loaded_stub, Some loaded_stub)"
  by (simp add: get_predictor_def CreditScorePredictor_def load_artifacts_cases stub_files_def
      loaded_stub_def DEFAULT_THRESHOLD_def)

text \<open>
  Claim C9 on the stub files: the predictor loaded from them is returned again when the
  model file has become unreadable, and survives a sequence of uses.
\<close>

theorem get_predictor_idempotent_witness:
  "get_predictor stub_files None = (Inr loaded_stub, Some loaded_stub)
   \<and> get_predictor broken_files (Some loaded_stub) = (Inr loaded_stub, Some loaded_stub)
   \<and> run Inr exact_add stub_sorted
        [(broken_files, Predict [(''a'', Finite 1)] None), (stub_files, GetThreshold)]
        (Some loaded_stub) = Some loaded_stub
   \<and> get_predictor broken_files None = (Inl (Raise ''FileNotFoundError''), None)"
proof -
  have first: "get_predictor stub_files None = (Inr loaded_stub, Some loaded_stub)"
    by (rule get_predictor_stub)
  have failing: "get_predictor broken_files None = (Inl (Raise ''FileNotFoundError''), None)"
    by (simp add: get_predictor_def CreditScorePredictor_def load_artifacts_cases
        broken_files_def stub_files_def)
  show ?thesis
    using first failing
      get_predictor_idempotent [of stub_files None loaded_stub "Some loaded_stub" Inr
        exact_add stub_sorted]
    by simp
qed

end
